theory Spec2Isabelle
  imports Complex_Main "HOL-Library.AList"
begin

section \<open>The Naive Bayes classifier of scripts/preprocessing.ipynb\<close>

text \<open>
  The notebook defines one class, \<^verbatim>\<open>NaiveBayes\<close>, with a constructor and the two methods
  \<^verbatim>\<open>train\<close> and \<^verbatim>\<open>predict\<close>. The embedding follows the Python statement by statement:
  the object is a record that every method takes and returns, a Python dictionary is an
  association list in insertion order (\<open>AList.update\<close> overwrites a present key in place
  and appends an absent one, as assignment to a dictionary does), an exception is the
  \<open>Inl\<close> branch of a sum, returned with the state the object has at the moment of the
  raise.

  Numbers: counts and labels are numpy 64-bit integers, modelled as \<open>int\<close> with the
  wrap-around of every sum written out. Probabilities and scores are numpy floats,
  modelled as \<open>real\<close>: rounding, infinities and NaN are not represented, \<open>ln 0\<close> is \<open>0\<close>
  where \<^verbatim>\<open>np.log(0)\<close> is \<open>-inf\<close>, and two scores that are equal as real numbers may differ
  in the last bit as floats. The evaluations of \<^verbatim>\<open>predict\<close> below are on inputs where the
  scores compared are either apart by much more than a rounding error or produced by the
  same operations on the same values.
\<close>

subsection \<open>Exceptions\<close>

text \<open>
  \<open>IndexError\<close>, \<open>KeyError\<close> and \<open>ValueError\<close> are the exceptions that numpy and Python
  raise from the statements of the two methods. \<open>InvalidInputError\<close> and
  \<open>UntrainedModelError\<close> are the two error kinds of the design document; the notebook
  defines no such classes and has no \<^verbatim>\<open>raise\<close> statement.
\<close>

datatype error = IndexError | KeyError | ValueError | InvalidInputError | UntrainedModelError

subsection \<open>Arrays\<close>

text \<open>
  A two-dimensional numpy array carries its shape, also when it has no row:
  \<^verbatim>\<open>X.shape[1]\<close> is \<open>ncols X\<close>. Every row of such an array has \<open>ncols X\<close> entries.
\<close>

record ndarray =
  ncols :: nat
  rows :: "int list list"

definition rectangular :: "ndarray \<Rightarrow> bool" where
  "rectangular X = list_all (\<lambda>r. length r = ncols X) (rows X)"

definition np_unique :: "int list \<Rightarrow> int list" where
  \<comment> \<open>\<^verbatim>\<open>np.unique(Y)\<close>: the distinct values, ascending\<close>
  "np_unique Y = sort (remdups Y)"

definition np_mean_eq :: "int list \<Rightarrow> int \<Rightarrow> real" where
  \<comment> \<open>\<^verbatim>\<open>np.mean(Y == c)\<close>\<close>
  "np_mean_eq Y c = real (count_list Y c) / real (length Y)"

definition class_slice :: "ndarray \<Rightarrow> int list \<Rightarrow> int \<Rightarrow> int list list" where
  \<comment> \<open>the rows of \<open>X\<close> at the positions where \<open>Y\<close> holds \<open>c\<close>\<close>
  "class_slice X Y c = map fst (filter (\<lambda>(r, y). y = c) (zip (rows X) Y))"

definition bool_index :: "ndarray \<Rightarrow> int list \<Rightarrow> int \<Rightarrow> error + int list list" where
  \<comment> \<open>\<^verbatim>\<open>X[Y == c]\<close>: numpy raises IndexError when the mask and the first axis differ in length\<close>
  "bool_index X Y c =
     (if length Y \<noteq> length (rows X) then Inl IndexError else Inr (class_slice X Y c))"

text \<open>
  The count matrix is an array of 64-bit integers (\<^verbatim>\<open>toarray()\<close> of the vectorizer). numpy
  adds such integers without a check: a sum that leaves the range from \<open>- 2 ^ 63\<close> to
  \<open>2 ^ 63 - 1\<close> wraps around. Adding modulo \<open>2 ^ 64\<close> at every step and reducing the exact
  sum once give the same 64-bit value.
\<close>

definition wrap64 :: "int \<Rightarrow> int" where
  \<comment> \<open>the value that a 64-bit two's complement integer holds for \<open>n\<close>\<close>
  "wrap64 n = (n + 2 ^ 63) mod 2 ^ 64 - 2 ^ 63"

definition int64_add :: "int \<Rightarrow> int \<Rightarrow> int" where
  \<comment> \<open>\<^verbatim>\<open>a + b\<close> with \<^verbatim>\<open>a\<close> a numpy 64-bit integer and \<^verbatim>\<open>b\<close> a small Python integer\<close>
  "int64_add a b = wrap64 (a + b)"

definition np_sum :: "int list list \<Rightarrow> int" where
  \<comment> \<open>\<^verbatim>\<open>np.sum(class_sample)\<close>\<close>
  "np_sum class_sample = wrap64 (sum_list (map sum_list class_sample))"

definition np_sum_column :: "int list list \<Rightarrow> nat \<Rightarrow> int" where
  \<comment> \<open>\<^verbatim>\<open>np.sum(class_sample[:, word_idx])\<close>\<close>
  "np_sum_column class_sample word_idx = wrap64 (sum_list (map (\<lambda>r. r ! word_idx) class_sample))"

subsection \<open>The object\<close>

text \<open>
  \<^verbatim>\<open>self.likelihood\<close> is a \<^verbatim>\<open>defaultdict\<close> whose missing entries are created on read as
  \<^verbatim>\<open>defaultdict(lambda: 0)\<close>; \<^verbatim>\<open>train\<close> replaces the entry of a class by a plain
  dictionary. The two kinds differ on a missing key: the first inserts 0 and returns it,
  the second raises KeyError.
\<close>

datatype word_dict = DefaultDict "(nat \<times> real) list" | Dict "(nat \<times> real) list"

fun items :: "word_dict \<Rightarrow> (nat \<times> real) list" where
  "items (DefaultDict e) = e"
| "items (Dict e) = e"

fun word_dict_set :: "word_dict \<Rightarrow> nat \<Rightarrow> real \<Rightarrow> word_dict" where
  "word_dict_set (DefaultDict e) j v = DefaultDict (AList.update j v e)"
| "word_dict_set (Dict e) j v = Dict (AList.update j v e)"

record NaiveBayes =
  class_prior :: "(int \<times> real) list"
  likelihood :: "(int \<times> word_dict) list"
  classes :: "int list"
  class_word_counts :: "(int \<times> int) list"
  vocab_size :: nat

definition NaiveBayes_init :: NaiveBayes where
  "NaiveBayes_init =
     \<lparr>class_prior = [], likelihood = [], classes = [], class_word_counts = [], vocab_size = 0\<rparr>"

definition likelihood_getitem ::
  "(int \<times> word_dict) list \<Rightarrow> int \<Rightarrow> word_dict \<times> (int \<times> word_dict) list" where
  \<comment> \<open>\<^verbatim>\<open>self.likelihood[c]\<close>, with the dictionary after the read\<close>
  "likelihood_getitem lik c =
     (case map_of lik c of
        Some d \<Rightarrow> (d, lik)
      | None \<Rightarrow> (DefaultDict [], AList.update c (DefaultDict []) lik))"

definition likelihood_lookup ::
  "(int \<times> word_dict) list \<Rightarrow> int \<Rightarrow> nat \<Rightarrow> (error + real) \<times> (int \<times> word_dict) list" where
  \<comment> \<open>\<^verbatim>\<open>self.likelihood[c][word_idx]\<close>, with the dictionary after the read\<close>
  "likelihood_lookup lik c word_idx =
     (case likelihood_getitem lik c of
        (Dict e, lik1) \<Rightarrow>
          (case map_of e word_idx of
             Some v \<Rightarrow> (Inr v, lik1)
           | None \<Rightarrow> (Inl KeyError, lik1))
      | (DefaultDict e, lik1) \<Rightarrow>
          (case map_of e word_idx of
             Some v \<Rightarrow> (Inr v, lik1)
           | None \<Rightarrow> (Inr 0, AList.update c (DefaultDict (AList.update word_idx 0 e)) lik1)))"

subsection \<open>train\<close>

fun train_priors :: "int list \<Rightarrow> int list \<Rightarrow> (int \<times> real) list \<Rightarrow> (int \<times> real) list" where
  \<comment> \<open>the first loop over \<^verbatim>\<open>self.classes\<close>\<close>
  "train_priors Y [] prior = prior"
| "train_priors Y (c # cs) prior = train_priors Y cs (AList.update c (np_mean_eq Y c) prior)"

fun train_words ::
  "int \<Rightarrow> int list list \<Rightarrow> nat list \<Rightarrow> (int \<times> word_dict) list \<Rightarrow> (int \<times> word_dict) list" where
  \<comment> \<open>the loop over \<^verbatim>\<open>range(self.vocab_size)\<close>\<close>
  "train_words c class_sample [] lik = lik"
| "train_words c class_sample (word_idx # rest) lik =
     (case likelihood_getitem lik c of
        (d, lik1) \<Rightarrow>
          train_words c class_sample rest
            (AList.update c
               (word_dict_set d word_idx (real_of_int (int64_add (np_sum_column class_sample word_idx) 1)))
               lik1))"

definition normalise :: "int \<Rightarrow> real \<Rightarrow> (int \<times> word_dict) list \<Rightarrow> (int \<times> word_dict) list" where
  \<comment> \<open>the dictionary comprehension assigned to \<^verbatim>\<open>self.likelihood[c]\<close>; the keys of a
      dictionary are distinct, so reading each key back is reading its item\<close>
  "normalise c denom lik =
     (case likelihood_getitem lik c of
        (d, lik1) \<Rightarrow> AList.update c (Dict (map (\<lambda>(word_idx, v). (word_idx, v / denom)) (items d))) lik1)"

definition train_class :: "ndarray \<Rightarrow> int list \<Rightarrow> int \<Rightarrow> NaiveBayes \<Rightarrow> (error + unit) \<times> NaiveBayes" where
  \<comment> \<open>the body of the second loop over \<^verbatim>\<open>self.classes\<close>\<close>
  "train_class X Y c m =
     (case bool_index X Y c of
        Inl e \<Rightarrow> (Inl e, m)
      | Inr class_sample \<Rightarrow>
          (let m1 = m\<lparr>class_word_counts := AList.update c (np_sum class_sample) (class_word_counts m)\<rparr>;
               lik1 = train_words c class_sample [0..<vocab_size m1] (likelihood m1);
               denom = real_of_int (int64_add (np_sum class_sample) (int (vocab_size m1)))
           in (Inr (), m1\<lparr>likelihood := normalise c denom lik1\<rparr>)))"

fun train_classes :: "ndarray \<Rightarrow> int list \<Rightarrow> int list \<Rightarrow> NaiveBayes \<Rightarrow> (error + unit) \<times> NaiveBayes" where
  "train_classes X Y [] m = (Inr (), m)"
| "train_classes X Y (c # cs) m =
     (case train_class X Y c m of
        (Inl e, m1) \<Rightarrow> (Inl e, m1)
      | (Inr u, m1) \<Rightarrow> train_classes X Y cs m1)"

definition train :: "NaiveBayes \<Rightarrow> ndarray \<Rightarrow> int list \<Rightarrow> (error + unit) \<times> NaiveBayes" where
  "train m X Y =
     (let m1 = m\<lparr>classes := np_unique Y\<rparr>;
          m2 = m1\<lparr>vocab_size := ncols X\<rparr>;
          m3 = m2\<lparr>class_prior := train_priors Y (classes m2) (class_prior m2)\<rparr>
      in train_classes X Y (classes m3) m3)"

subsection \<open>predict\<close>

fun log_prob_loop ::
  "int \<Rightarrow> int list \<Rightarrow> nat list \<Rightarrow> real \<Rightarrow> (int \<times> word_dict) list
     \<Rightarrow> (error + real) \<times> (int \<times> word_dict) list" where
  \<comment> \<open>the loop over \<^verbatim>\<open>range(len(x))\<close>\<close>
  "log_prob_loop c x [] log_prob lik = (Inr log_prob, lik)"
| "log_prob_loop c x (word_idx # rest) log_prob lik =
     (if x ! word_idx > 0 then
        (case likelihood_lookup lik c word_idx of
           (Inl e, lik1) \<Rightarrow> (Inl e, lik1)
         | (Inr v, lik1) \<Rightarrow> log_prob_loop c x rest (log_prob + ln v) lik1)
      else log_prob_loop c x rest log_prob lik)"

fun predict_classes ::
  "int list \<Rightarrow> (int \<times> real) list \<Rightarrow> (int \<times> real) list \<Rightarrow> (int \<times> word_dict) list
     \<Rightarrow> (error + (int \<times> real) list) \<times> (int \<times> word_dict) list" where
  \<comment> \<open>the loop over \<^verbatim>\<open>self.class_prior\<close>\<close>
  "predict_classes x [] class_probs lik = (Inr class_probs, lik)"
| "predict_classes x ((c, p) # rest) class_probs lik =
     (case log_prob_loop c x [0..<length x] (ln p) lik of
        (Inl e, lik1) \<Rightarrow> (Inl e, lik1)
      | (Inr log_prob, lik1) \<Rightarrow> predict_classes x rest (AList.update c log_prob class_probs) lik1)"

fun max_from :: "(int \<times> real) list \<Rightarrow> int \<times> real \<Rightarrow> int" where
  \<comment> \<open>Python's \<^verbatim>\<open>max\<close> keeps the first item whose key no later key exceeds\<close>
  "max_from [] best = fst best"
| "max_from ((c, s) # rest) best = (if s > snd best then max_from rest (c, s) else max_from rest best)"

definition py_max :: "(int \<times> real) list \<Rightarrow> error + int" where
  \<comment> \<open>\<^verbatim>\<open>max(class_probs, key=class_probs.get)\<close>; ValueError on an empty dictionary\<close>
  "py_max class_probs = (case class_probs of [] \<Rightarrow> Inl ValueError | p # rest \<Rightarrow> Inr (max_from rest p))"

definition predict_row :: "NaiveBayes \<Rightarrow> int list \<Rightarrow> (error + int) \<times> NaiveBayes" where
  \<comment> \<open>the body of the loop over the rows of \<^verbatim>\<open>X\<close>\<close>
  "predict_row m x =
     (case predict_classes x (class_prior m) [] (likelihood m) of
        (Inl e, lik1) \<Rightarrow> (Inl e, m\<lparr>likelihood := lik1\<rparr>)
      | (Inr class_probs, lik1) \<Rightarrow>
          (case py_max class_probs of
             Inl e \<Rightarrow> (Inl e, m\<lparr>likelihood := lik1\<rparr>)
           | Inr label \<Rightarrow> (Inr label, m\<lparr>likelihood := lik1\<rparr>)))"

fun predict_rows :: "NaiveBayes \<Rightarrow> int list list \<Rightarrow> int list \<Rightarrow> (error + int list) \<times> NaiveBayes" where
  "predict_rows m [] predictions = (Inr predictions, m)"
| "predict_rows m (x # xs) predictions =
     (case predict_row m x of
        (Inl e, m1) \<Rightarrow> (Inl e, m1)
      | (Inr label, m1) \<Rightarrow> predict_rows m1 xs (predictions @ [label]))"

definition predict :: "NaiveBayes \<Rightarrow> ndarray \<Rightarrow> (error + int list) \<times> NaiveBayes" where
  "predict m X = predict_rows m (rows X) []"

subsection \<open>Reading the trained parameters\<close>

text \<open>
  The probability stored for a class, and the one stored for a class and a word index. A
  missing entry reads as 0, so a positive value is one that is stored.
\<close>

definition prior_of :: "NaiveBayes \<Rightarrow> int \<Rightarrow> real" where
  "prior_of m c = (case map_of (class_prior m) c of Some p \<Rightarrow> p | None \<Rightarrow> 0)"

definition total_of :: "NaiveBayes \<Rightarrow> int \<Rightarrow> int" where
  "total_of m c = (case map_of (class_word_counts m) c of Some t \<Rightarrow> t | None \<Rightarrow> 0)"

definition entries :: "(int \<times> word_dict) list \<Rightarrow> int \<Rightarrow> (nat \<times> real) list" where
  "entries lik c = (case map_of lik c of Some d \<Rightarrow> items d | None \<Rightarrow> [])"

definition likelihood_of :: "NaiveBayes \<Rightarrow> int \<Rightarrow> nat \<Rightarrow> real" where
  "likelihood_of m c word_idx =
     (case map_of (entries (likelihood m) c) word_idx of Some v \<Rightarrow> v | None \<Rightarrow> 0)"

definition valid_input :: "ndarray \<Rightarrow> int list \<Rightarrow> bool" where
  \<comment> \<open>the precondition of training: one label per row, at least one row, at least one
      column, no negative count\<close>
  "valid_input X Y \<longleftrightarrow>
     rectangular X \<and> length Y = length (rows X) \<and> 1 \<le> length Y \<and> 1 \<le> ncols X \<and>
     list_all (list_all (\<lambda>v. 0 \<le> v)) (rows X)"

definition raw_count :: "ndarray \<Rightarrow> int list \<Rightarrow> int \<Rightarrow> nat \<Rightarrow> int" where
  \<comment> \<open>the sum of entry \<open>j\<close> over the training rows labelled \<open>c\<close>\<close>
  "raw_count X Y c j = (\<Sum>i | i < length Y \<and> Y ! i = c. rows X ! i ! j)"

definition class_term_total :: "ndarray \<Rightarrow> int list \<Rightarrow> int \<Rightarrow> int" where
  \<comment> \<open>the sum of all entries of the training rows labelled \<open>c\<close>\<close>
  "class_term_total X Y c = (\<Sum>i | i < length Y \<and> Y ! i = c. sum_list (rows X ! i))"

definition within_int64 :: "ndarray \<Rightarrow> int list \<Rightarrow> bool" where
  \<comment> \<open>for every label, the entries of its rows and the number of columns add up to a
      64-bit integer\<close>
  "within_int64 X Y \<longleftrightarrow> list_all (\<lambda>c. class_term_total X Y c + int (ncols X) < 2 ^ 63) Y"

fun raw_counts :: "int list list \<Rightarrow> nat list \<Rightarrow> (nat \<times> real) list \<Rightarrow> (nat \<times> real) list" where
  \<comment> \<open>the items that the loop over the word indices leaves in the dictionary of a class\<close>
  "raw_counts class_sample [] e = e"
| "raw_counts class_sample (word_idx # rest) e =
     raw_counts class_sample rest
       (AList.update word_idx (real_of_int (int64_add (np_sum_column class_sample word_idx) 1)) e)"

subsection \<open>Reading a prediction\<close>

definition present :: "int list \<Rightarrow> nat set" where
  \<comment> \<open>the word indices at which a row is strictly positive\<close>
  "present x = {j. j < length x \<and> 0 < x ! j}"

definition positions :: "int list \<Rightarrow> nat list" where
  \<comment> \<open>the same indices in the order in which the loop over \<^verbatim>\<open>range(len(x))\<close> meets them\<close>
  "positions x = filter (\<lambda>j. 0 < x ! j) [0..<length x]"

fun log_prob_present ::
  "int \<Rightarrow> nat list \<Rightarrow> real \<Rightarrow> (int \<times> word_dict) list \<Rightarrow> (error + real) \<times> (int \<times> word_dict) list" where
  \<comment> \<open>the loop of \<open>log_prob_loop\<close> over indices whose test \<^verbatim>\<open>x[word_idx] > 0\<close> has succeeded\<close>
  "log_prob_present c [] log_prob lik = (Inr log_prob, lik)"
| "log_prob_present c (word_idx # rest) log_prob lik =
     (case likelihood_lookup lik c word_idx of
        (Inl e, lik1) \<Rightarrow> (Inl e, lik1)
      | (Inr v, lik1) \<Rightarrow> log_prob_present c rest (log_prob + ln v) lik1)"

definition presence_score :: "NaiveBayes \<Rightarrow> int \<Rightarrow> int list \<Rightarrow> real" where
  \<comment> \<open>the score of the design document: the logarithm of the prior, and the logarithm of
      the likelihood once for every index at which the row is positive\<close>
  "presence_score m c x = ln (prior_of m c) + (\<Sum>j \<in> present x. ln (likelihood_of m c j))"

definition stored :: "(int \<times> word_dict) list \<Rightarrow> int list \<Rightarrow> int \<Rightarrow> bool" where
  \<comment> \<open>class \<open>c\<close> has a plain dictionary with an item at every index at which \<open>x\<close> is positive\<close>
  "stored lik x c \<longleftrightarrow>
     (\<exists>e. map_of lik c = Some (Dict e) \<and> (\<forall>j \<in> present x. map_of e j \<noteq> None))"

definition first_argmax :: "int list \<Rightarrow> (int \<Rightarrow> real) \<Rightarrow> int \<Rightarrow> bool" where
  \<comment> \<open>\<open>l\<close> is in \<open>cs\<close>, no element of \<open>cs\<close> scores more, every element before \<open>l\<close> scores less\<close>
  "first_argmax cs f l \<longleftrightarrow>
     (\<exists>pre post. cs = pre @ l # post \<and> (\<forall>c \<in> set pre. f c < f l) \<and> (\<forall>c \<in> set post. f c \<le> f l))"

definition plain :: "(int \<times> word_dict) list \<Rightarrow> int \<Rightarrow> bool" where
  \<comment> \<open>the entry of class \<open>c\<close> exists and is a plain dictionary\<close>
  "plain lik c = (case map_of lik c of Some (Dict e) \<Rightarrow> True | _ \<Rightarrow> False)"

definition all_plain :: "NaiveBayes \<Rightarrow> bool" where
  "all_plain m = list_all (\<lambda>(c, p). plain (likelihood m) c) (class_prior m)"


section \<open>What train computes\<close>

subsection \<open>One class\<close>

lemma entries_update_same: "entries (AList.update c d lik) c = items d"
  by (simp add: entries_def update_conv')

lemma items_word_dict_set: "items (word_dict_set d j v) = AList.update j v (items d)"
  by (cases d) simp_all

lemma normalise_closed:
  "normalise c denom lik =
     AList.update c (Dict (map (\<lambda>(word_idx, v). (word_idx, v / denom)) (entries lik c))) lik"
  by (simp add: normalise_def likelihood_getitem_def entries_def split: option.splits)

lemma train_words_step:
  "train_words c cs (j # js) lik =
     train_words c cs js
       (AList.update c (word_dict_set (case map_of lik c of Some d \<Rightarrow> d | None \<Rightarrow> DefaultDict []) j
          (real_of_int (int64_add (np_sum_column cs j) 1))) lik)"
  by (simp add: likelihood_getitem_def split: option.splits)

lemma entries_step:
  "entries (AList.update c (word_dict_set (case map_of lik c of Some d \<Rightarrow> d | None \<Rightarrow> DefaultDict []) j v) lik) c
     = AList.update j v (entries lik c)"
  by (simp add: entries_update_same items_word_dict_set) (simp add: entries_def split: option.splits)

lemma normalise_train_words:
  "normalise c denom (train_words c cs js lik) =
     AList.update c (Dict (map (\<lambda>(word_idx, v). (word_idx, v / denom)) (raw_counts cs js (entries lik c)))) lik"
proof (induction js arbitrary: lik)
  case Nil
  show ?case by (simp add: normalise_closed)
next
  case (Cons j js)
  show ?case
    unfolding train_words_step Cons.IH entries_step by simp
qed

lemma train_class_closed:
  "length Y = length (rows X) \<Longrightarrow>
   train_class X Y c m =
     (Inr (), m\<lparr>class_word_counts := AList.update c (np_sum (class_slice X Y c)) (class_word_counts m),
               likelihood := AList.update c
                 (Dict (map (\<lambda>(word_idx, v). (word_idx, v / real_of_int (int64_add (np_sum (class_slice X Y c)) (int (vocab_size m)))))
                    (raw_counts (class_slice X Y c) [0..<vocab_size m] (entries (likelihood m) c))))
                 (likelihood m)\<rparr>)"
  by (simp add: train_class_def bool_index_def normalise_train_words Let_def)

lemma train_class_mismatch:
  "length Y \<noteq> length (rows X) \<Longrightarrow> train_class X Y c m = (Inl IndexError, m)"
  by (simp add: train_class_def bool_index_def)

lemma map_of_raw_counts:
  "map_of (raw_counts cs js e) j =
     (if j \<in> set js then Some (real_of_int (int64_add (np_sum_column cs j) 1)) else map_of e j)"
  by (induction js arbitrary: e) (auto simp: update_conv')

lemma map_of_scaled:
  "map_of (map (\<lambda>(word_idx, v). (word_idx, v / denom)) e) j = map_option (\<lambda>v. v / denom) (map_of e j)"
  by (induction e) auto

subsection \<open>All classes\<close>

lemma train_classes_frame:
  "length Y = length (rows X) \<Longrightarrow>
   fst (train_classes X Y cs m) = Inr () \<and>
   class_prior (snd (train_classes X Y cs m)) = class_prior m \<and>
   classes (snd (train_classes X Y cs m)) = classes m \<and>
   vocab_size (snd (train_classes X Y cs m)) = vocab_size m"
  by (induction cs arbitrary: m) (simp_all add: train_class_closed)

lemma train_classes_counts:
  "length Y = length (rows X) \<Longrightarrow>
   map_of (class_word_counts (snd (train_classes X Y cs m))) c =
     (if c \<in> set cs then Some (np_sum (class_slice X Y c)) else map_of (class_word_counts m) c)"
  by (induction cs arbitrary: m) (simp_all add: train_class_closed update_conv')

lemma entries_update_other: "c' \<noteq> c \<Longrightarrow> entries (AList.update c d lik) c' = entries lik c'"
  by (simp add: entries_def update_conv')

lemma train_classes_likelihood:
  "length Y = length (rows X) \<Longrightarrow> distinct cs \<Longrightarrow>
   map_of (likelihood (snd (train_classes X Y cs m))) c =
     (if c \<in> set cs
      then Some (Dict (map (\<lambda>(word_idx, v). (word_idx, v / real_of_int (int64_add (np_sum (class_slice X Y c)) (int (vocab_size m)))))
                    (raw_counts (class_slice X Y c) [0..<vocab_size m] (entries (likelihood m) c))))
      else map_of (likelihood m) c)"
proof (induction cs arbitrary: m)
  case Nil
  show ?case by simp
next
  case (Cons c0 cs)
  have IH: "map_of (likelihood (snd (train_classes X Y cs m1))) c =
     (if c \<in> set cs
      then Some (Dict (map (\<lambda>(word_idx, v). (word_idx, v / real_of_int (int64_add (np_sum (class_slice X Y c)) (int (vocab_size m1)))))
                    (raw_counts (class_slice X Y c) [0..<vocab_size m1] (entries (likelihood m1) c))))
      else map_of (likelihood m1) c)" for m1
    using Cons by simp
  show ?case
  proof (cases "c \<in> set cs")
    case True
    then have "c \<noteq> c0" using Cons.prems by auto
    then show ?thesis
      using True Cons.prems(1) by (simp add: train_class_closed IH entries_update_other)
  next
    case False
    then show ?thesis
      using Cons.prems(1) by (simp add: train_class_closed IH update_conv')
  qed
qed

lemma map_of_train_priors:
  "map_of (train_priors Y cs prior) c =
     (if c \<in> set cs then Some (np_mean_eq Y c) else map_of prior c)"
  by (induction cs arbitrary: prior) (auto simp: update_conv')

lemma keys_train_priors:
  "distinct cs \<Longrightarrow> set cs \<inter> fst ` set prior = {} \<Longrightarrow>
   map fst (train_priors Y cs prior) = map fst prior @ cs"
proof (induction cs arbitrary: prior)
  case Nil
  show ?case by simp
next
  case (Cons a cs)
  have "set cs \<inter> fst ` set (AList.update a (np_mean_eq Y a) prior) = {}"
    using Cons.prems by (auto simp: dom_update)
  then have "map fst (train_priors Y cs (AList.update a (np_mean_eq Y a) prior)) =
     map fst (AList.update a (np_mean_eq Y a) prior) @ cs"
    using Cons.IH Cons.prems(1) by simp
  moreover have "a \<notin> set (map fst prior)" using Cons.prems(2) by auto
  ultimately show ?case by (simp add: update_keys)
qed

lemma set_np_unique: "set (np_unique Y) = set Y"
  by (simp add: np_unique_def)

lemma distinct_np_unique: "distinct (np_unique Y)"
  by (simp add: np_unique_def)

lemma train_succeeds:
  "length Y = length (rows X) \<Longrightarrow> fst (train m X Y) = Inr ()"
  by (simp add: train_def Let_def train_classes_frame)

lemma train_fields:
  "length Y = length (rows X) \<Longrightarrow>
   classes (snd (train m X Y)) = np_unique Y \<and> vocab_size (snd (train m X Y)) = ncols X \<and>
   class_prior (snd (train m X Y)) = train_priors Y (np_unique Y) (class_prior m)"
  by (simp add: train_def Let_def train_classes_frame)

lemma train_counts:
  "length Y = length (rows X) \<Longrightarrow>
   map_of (class_word_counts (snd (train m X Y))) c =
     (if c \<in> set Y then Some (np_sum (class_slice X Y c)) else map_of (class_word_counts m) c)"
  by (simp add: train_def Let_def train_classes_counts set_np_unique)

lemma train_likelihood:
  "length Y = length (rows X) \<Longrightarrow>
   map_of (likelihood (snd (train m X Y))) c =
     (if c \<in> set Y
      then Some (Dict (map (\<lambda>(word_idx, v). (word_idx, v / real_of_int (int64_add (np_sum (class_slice X Y c)) (int (ncols X)))))
                    (raw_counts (class_slice X Y c) [0..<ncols X] (entries (likelihood m) c))))
      else map_of (likelihood m) c)"
  by (simp add: train_def Let_def train_classes_likelihood set_np_unique distinct_np_unique)

lemma train_prior_of:
  "length Y = length (rows X) \<Longrightarrow> c \<in> set Y \<Longrightarrow>
   prior_of (snd (train m X Y)) c = np_mean_eq Y c"
  by (simp add: prior_of_def train_fields map_of_train_priors set_np_unique)

lemma train_total_of:
  "length Y = length (rows X) \<Longrightarrow> c \<in> set Y \<Longrightarrow>
   total_of (snd (train m X Y)) c = np_sum (class_slice X Y c)"
  by (simp add: total_of_def train_counts)

lemma train_likelihood_of:
  "length Y = length (rows X) \<Longrightarrow> c \<in> set Y \<Longrightarrow> j < ncols X \<Longrightarrow>
   likelihood_of (snd (train m X Y)) c j =
     real_of_int (int64_add (np_sum_column (class_slice X Y c) j) 1) /
     real_of_int (int64_add (np_sum (class_slice X Y c)) (int (ncols X)))"
  by (simp add: likelihood_of_def entries_def train_likelihood map_of_scaled map_of_raw_counts)

subsection \<open>The class slice and its sums\<close>

lemma class_slice_nth:
  assumes "length Y = length (rows X)"
  shows "class_slice X Y c = map (\<lambda>i. rows X ! i) (filter (\<lambda>i. Y ! i = c) [0..<length Y])"
proof -
  have "zip (rows X) Y = map (\<lambda>i. (rows X ! i, Y ! i)) [0..<length Y]"
    using assms by (intro nth_equalityI) simp_all
  then show ?thesis
    by (simp add: class_slice_def filter_map comp_def)
qed

lemma sum_list_class_slice:
  assumes "length Y = length (rows X)"
  shows "sum_list (map f (class_slice X Y c)) = (\<Sum>i | i < length Y \<and> Y ! i = c. f (rows X ! i))"
proof -
  have "sum_list (map f (class_slice X Y c)) =
        sum_list (map (\<lambda>i. f (rows X ! i)) (filter (\<lambda>i. Y ! i = c) [0..<length Y]))"
    by (simp add: class_slice_nth [OF assms] comp_def)
  also have "\<dots> = sum (\<lambda>i. f (rows X ! i)) (set (filter (\<lambda>i. Y ! i = c) [0..<length Y]))"
    by (rule sum_list_distinct_conv_sum_set) simp
  also have "set (filter (\<lambda>i. Y ! i = c) [0..<length Y]) = {i. i < length Y \<and> Y ! i = c}"
    by auto
  finally show ?thesis .
qed

lemma wrap64_id: "- (2 ^ 63) \<le> n \<Longrightarrow> n < 2 ^ 63 \<Longrightarrow> wrap64 n = n"
  by (simp add: wrap64_def)

lemma exact_column_raw_count:
  "length Y = length (rows X) \<Longrightarrow>
   sum_list (map (\<lambda>r. r ! j) (class_slice X Y c)) = raw_count X Y c j"
  by (simp add: raw_count_def sum_list_class_slice)

lemma exact_sum_class_term_total:
  "length Y = length (rows X) \<Longrightarrow>
   sum_list (map sum_list (class_slice X Y c)) = class_term_total X Y c"
  by (simp add: class_term_total_def sum_list_class_slice)

lemma set_class_slice: "set (class_slice X Y c) \<subseteq> set (rows X)"
  by (auto simp: class_slice_def dest: set_zip_leftD)

lemma columns_sum:
  "\<forall>r \<in> set cs. length r = V \<Longrightarrow>
   (\<Sum>j<V. sum_list (map (\<lambda>r. r ! j) cs)) = (sum_list (map sum_list cs) :: int)"
proof (induction cs)
  case Nil
  show ?case by simp
next
  case (Cons r cs)
  have "(\<Sum>j<V. r ! j) = sum_list r"
    using Cons.prems by (simp add: sum_list_sum_nth atLeast0LessThan)
  moreover have "(\<Sum>j<V. sum_list (map (\<lambda>r. r ! j) cs)) = sum_list (map sum_list cs)"
    using Cons by simp
  ultimately show ?case
    by (simp add: sum.distrib)
qed

lemma column_nonneg:
  "\<forall>r \<in> set cs. length r = V \<and> (\<forall>v \<in> set r. 0 \<le> v) \<Longrightarrow> j < V \<Longrightarrow>
   (0 :: int) \<le> sum_list (map (\<lambda>r. r ! j) cs)"
  by (rule sum_list_nonneg) auto

lemma valid_input_rows:
  "valid_input X Y \<Longrightarrow> r \<in> set (class_slice X Y c) \<Longrightarrow> length r = ncols X \<and> (\<forall>v \<in> set r. 0 \<le> v)"
  using set_class_slice [of X Y c] by (auto simp: valid_input_def rectangular_def list_all_iff)

lemma raw_count_nonneg:
  assumes "valid_input X Y" and "j < ncols X"
  shows "0 \<le> raw_count X Y c j"
proof -
  have len: "length Y = length (rows X)" using assms(1) by (simp add: valid_input_def)
  have "\<forall>r \<in> set (class_slice X Y c). length r = ncols X \<and> (\<forall>v \<in> set r. 0 \<le> v)"
    using valid_input_rows [OF assms(1)] by blast
  then have "0 \<le> sum_list (map (\<lambda>r. r ! j) (class_slice X Y c))"
    using assms(2) by (rule column_nonneg)
  then show ?thesis by (simp add: exact_column_raw_count [OF len])
qed

lemma raw_count_sum:
  assumes "valid_input X Y"
  shows "(\<Sum>j<ncols X. raw_count X Y c j) = class_term_total X Y c"
proof -
  have len: "length Y = length (rows X)" using assms by (simp add: valid_input_def)
  have "\<forall>r \<in> set (class_slice X Y c). length r = ncols X"
    using valid_input_rows [OF assms] by blast
  then have "(\<Sum>j<ncols X. sum_list (map (\<lambda>r. r ! j) (class_slice X Y c))) =
      sum_list (map sum_list (class_slice X Y c))"
    by (rule columns_sum)
  then show ?thesis
    by (simp add: exact_column_raw_count [OF len] exact_sum_class_term_total [OF len])
qed

lemma raw_count_le_total:
  assumes "valid_input X Y" and "j < ncols X"
  shows "raw_count X Y c j \<le> class_term_total X Y c"
proof -
  have "raw_count X Y c j \<le> (\<Sum>j<ncols X. raw_count X Y c j)"
  proof (rule member_le_sum)
    show "j \<in> {..<ncols X}" using assms(2) by simp
    show "0 \<le> raw_count X Y c k" if "k \<in> {..<ncols X} - {j}" for k
      using raw_count_nonneg [OF assms(1), of k c] that by simp
  qed simp
  then show ?thesis by (simp add: raw_count_sum [OF assms(1)])
qed

lemma class_term_total_nonneg:
  assumes "valid_input X Y"
  shows "0 \<le> class_term_total X Y c"
proof -
  have "0 \<le> (\<Sum>j<ncols X. raw_count X Y c j)"
    using raw_count_nonneg [OF assms] by (intro sum_nonneg) simp
  then show ?thesis by (simp add: raw_count_sum [OF assms])
qed

lemma train_exact_total:
  assumes "valid_input X Y" and "c \<in> set Y"
    and "class_term_total X Y c + int (ncols X) < 2 ^ 63"
  shows "total_of (snd (train m X Y)) c = class_term_total X Y c"
proof -
  have len: "length Y = length (rows X)" using assms(1) by (simp add: valid_input_def)
  have "0 \<le> class_term_total X Y c" using assms(1) by (rule class_term_total_nonneg)
  then have "wrap64 (class_term_total X Y c) = class_term_total X Y c"
    using assms(3) by (intro wrap64_id) simp_all
  then show ?thesis
    by (simp add: train_total_of [OF len assms(2)] np_sum_def exact_sum_class_term_total [OF len])
qed

lemma train_exact_likelihood:
  assumes "valid_input X Y" and "c \<in> set Y" and "j < ncols X"
    and "class_term_total X Y c + int (ncols X) < 2 ^ 63"
  shows "likelihood_of (snd (train m X Y)) c j =
           (real_of_int (raw_count X Y c j) + 1) /
           (real_of_int (class_term_total X Y c) + real (ncols X))"
proof -
  have len: "length Y = length (rows X)" using assms(1) by (simp add: valid_input_def)
  define T where "T = class_term_total X Y c"
  define r where "r = raw_count X Y c j"
  have T: "0 \<le> T" unfolding T_def using assms(1) by (rule class_term_total_nonneg)
  have r: "0 \<le> r" "r \<le> T"
    unfolding r_def T_def
    using raw_count_nonneg [OF assms(1,3)] raw_count_le_total [OF assms(1,3)] by simp_all
  have V: "1 \<le> int (ncols X)" using assms(3) by simp
  have bound: "T + int (ncols X) < 2 ^ 63" using assms(4) by (simp add: T_def)
  have "wrap64 T = T" using T bound by (intro wrap64_id) simp_all
  then have sum: "np_sum (class_slice X Y c) = T"
    by (simp add: np_sum_def exact_sum_class_term_total [OF len] T_def)
  have "wrap64 r = r" using r T bound by (intro wrap64_id) simp_all
  then have col: "np_sum_column (class_slice X Y c) j = r"
    by (simp add: np_sum_column_def exact_column_raw_count [OF len] r_def)
  have num: "int64_add r 1 = r + 1"
    unfolding int64_add_def using r V bound by (intro wrap64_id) simp_all
  have den: "int64_add T (int (ncols X)) = T + int (ncols X)"
    unfolding int64_add_def using T bound by (intro wrap64_id) simp_all
  show ?thesis
    by (simp add: train_likelihood_of [OF len assms(2,3)] sum col num den flip: T_def r_def)
qed

lemma sum_priors:
  assumes "Y \<noteq> []"
  shows "(\<Sum>c \<in> set Y. np_mean_eq Y c) = 1"
proof -
  have "(\<Sum>c \<in> set Y. np_mean_eq Y c) = real (\<Sum>c \<in> set Y. count_list Y c) / real (length Y)"
    by (simp add: np_mean_eq_def sum_divide_distrib)
  also have "(\<Sum>c \<in> set Y. count_list Y c) = length Y"
    by (rule sum_count_set) simp_all
  finally show ?thesis using assms by simp
qed

lemma np_mean_eq_pos:
  assumes "c \<in> set Y"
  shows "0 < np_mean_eq Y c"
proof -
  have "count_list Y c \<noteq> 0" using assms by (simp add: count_list_0_iff)
  then have "0 < real (count_list Y c)" by simp
  moreover have "0 < real (length Y)" using assms by (cases Y) auto
  ultimately show ?thesis by (simp add: np_mean_eq_def)
qed

subsection \<open>Positivity and normalisation\<close>

lemma in_unit_interval:
  assumes "valid_input X Y" and "c \<in> set Y" and "j < ncols X"
    and "class_term_total X Y c + int (ncols X) < 2 ^ 63"
  shows "0 < likelihood_of (snd (train m X Y)) c j \<and> likelihood_of (snd (train m X Y)) c j \<le> 1"
proof -
  have "0 \<le> raw_count X Y c j" and "raw_count X Y c j \<le> class_term_total X Y c"
    using raw_count_nonneg [OF assms(1,3)] raw_count_le_total [OF assms(1,3)] by simp_all
  moreover have "1 \<le> int (ncols X)" using assms(3) by simp
  ultimately show ?thesis
    by (simp add: train_exact_likelihood [OF assms])
qed

lemma likelihood_sum:
  assumes "valid_input X Y" and "c \<in> set Y"
    and "class_term_total X Y c + int (ncols X) < 2 ^ 63"
  shows "(\<Sum>j<ncols X. likelihood_of (snd (train m X Y)) c j) = 1"
proof -
  have V: "1 \<le> ncols X" using assms(1) by (simp add: valid_input_def)
  define T where "T = class_term_total X Y c"
  have T: "0 \<le> T" unfolding T_def using assms(1) by (rule class_term_total_nonneg)
  have "(\<Sum>j<ncols X. likelihood_of (snd (train m X Y)) c j) =
        (\<Sum>j<ncols X. real_of_int (raw_count X Y c j + 1) / real_of_int (T + int (ncols X)))"
    by (rule sum.cong) (simp_all add: train_exact_likelihood [OF assms(1,2) _ assms(3)] T_def)
  also have "\<dots> = real_of_int (\<Sum>j<ncols X. raw_count X Y c j + 1) / real_of_int (T + int (ncols X))"
    by (simp add: sum_divide_distrib)
  also have "(\<Sum>j<ncols X. raw_count X Y c j + 1) = T + int (ncols X)"
    by (simp add: sum.distrib raw_count_sum [OF assms(1)] T_def)
  finally show ?thesis using T V by simp
qed

lemma prior_le_1: "np_mean_eq Y c \<le> 1"
proof (cases "Y = []")
  case True
  then show ?thesis by (simp add: np_mean_eq_def)
next
  case False
  have "real (count_list Y c) \<le> real (length Y)" using count_le_length [of Y c] by simp
  then show ?thesis using False by (simp add: np_mean_eq_def)
qed

subsection \<open>Outcome of train, and the plain dictionaries\<close>

lemma plain_iff: "plain lik c \<longleftrightarrow> (\<exists>e. map_of lik c = Some (Dict e))"
  by (auto simp: plain_def split: option.splits word_dict.splits)

lemma all_plain_init: "all_plain NaiveBayes_init"
  by (simp add: all_plain_def NaiveBayes_init_def)

lemma train_classes_mismatch:
  "length Y \<noteq> length (rows X) \<Longrightarrow> cs \<noteq> [] \<Longrightarrow> fst (train_classes X Y cs m) = Inl IndexError"
  by (cases cs) (simp_all add: train_class_mismatch)

lemma np_unique_Nil: "np_unique Y = [] \<longleftrightarrow> Y = []"
  using set_np_unique [of Y] by (metis set_empty)

lemma train_outcome:
  "fst (train m X Y) = (if length Y = length (rows X) \<or> Y = [] then Inr () else Inl IndexError)"
proof (cases "length Y = length (rows X)")
  case True
  then show ?thesis by (simp add: train_succeeds)
next
  case False
  show ?thesis
  proof (cases "Y = []")
    case True
    then show ?thesis by (simp add: train_def np_unique_def)
  next
    case ne: False
    then have "np_unique Y \<noteq> []" by (simp add: np_unique_Nil)
    then show ?thesis using False ne by (simp add: train_def train_classes_mismatch)
  qed
qed

lemma train_no_labels:
  "train m X [] = (Inr (), m\<lparr>classes := [], vocab_size := ncols X\<rparr>)"
  by (simp add: train_def np_unique_def)

lemma train_all_plain:
  assumes "all_plain m" and "fst (train m X Y) = Inr ()"
  shows "all_plain (snd (train m X Y))"
proof (cases "Y = []")
  case True
  then show ?thesis using assms(1) by (simp add: train_no_labels all_plain_def)
next
  case False
  then have len: "length Y = length (rows X)"
    using assms(2) by (simp add: train_outcome split: if_splits)
  have old: "plain (likelihood m) c" if "c \<in> fst ` set (class_prior m)" for c
    using assms(1) that by (auto simp: all_plain_def list_all_iff)
  have "plain (likelihood (snd (train m X Y))) c"
    if "(c, p) \<in> set (class_prior (snd (train m X Y)))" for c p
  proof (cases "c \<in> set Y")
    case True
    then show ?thesis by (simp add: plain_iff train_likelihood [OF len])
  next
    case False
    have "map_of (class_prior (snd (train m X Y))) c \<noteq> None"
      using that by (metis map_of_eq_None_iff fst_conv image_eqI)
    then have "map_of (class_prior m) c \<noteq> None"
      using False by (simp add: train_fields [OF len] map_of_train_priors set_np_unique)
    then have "c \<in> fst ` set (class_prior m)" by (simp add: map_of_eq_None_iff)
    then show ?thesis using False old by (simp add: plain_iff train_likelihood [OF len])
  qed
  then show ?thesis by (auto simp: all_plain_def list_all_iff)
qed


section \<open>What predict computes\<close>

subsection \<open>The score of one class\<close>

lemma likelihood_lookup_plain:
  "map_of lik c = Some (Dict e) \<Longrightarrow>
   likelihood_lookup lik c j = ((case map_of e j of Some v \<Rightarrow> Inr v | None \<Rightarrow> Inl KeyError), lik)"
  by (simp add: likelihood_lookup_def likelihood_getitem_def split: option.splits)

lemma log_prob_loop_present:
  "log_prob_loop c x js lp lik = log_prob_present c (filter (\<lambda>j. 0 < x ! j) js) lp lik"
  by (induction js arbitrary: lp lik) (auto split: prod.splits sum.splits)

lemma set_positions: "set (positions x) = present x"
  by (auto simp: positions_def present_def)

lemma positions_sorted: "sorted (positions x) \<and> distinct (positions x)"
  using sorted_wrt_filter [of "(\<le>)" "[0..<length x]" "\<lambda>j. 0 < x ! j"] by (simp add: positions_def)


lemma class_score_positions:
  "log_prob_loop c x [0..<length x] lp lik = log_prob_present c (positions x) lp lik"
  by (simp add: log_prob_loop_present positions_def)




lemma log_prob_present_plain:
  assumes "map_of lik c = Some (Dict e)" and "\<forall>j \<in> set js. map_of e j \<noteq> None"
  shows "log_prob_present c js lp lik =
           (Inr (lp + (\<Sum>j\<leftarrow>js. ln (case map_of e j of Some v \<Rightarrow> v | None \<Rightarrow> 0))), lik)"
  using assms(2)
proof (induction js arbitrary: lp)
  case Nil
  show ?case by simp
next
  case (Cons j js)
  then obtain v where v: "map_of e j = Some v" by auto
  show ?case
    using Cons by (simp add: likelihood_lookup_plain [OF assms(1)] v add.assoc)
qed

lemma log_prob_present_missing:
  assumes "map_of lik c = Some (Dict e)" and "\<exists>j \<in> set js. map_of e j = None"
  shows "log_prob_present c js lp lik = (Inl KeyError, lik)"
  using assms(2)
proof (induction js arbitrary: lp)
  case Nil
  then show ?case by simp
next
  case (Cons j js)
  show ?case
  proof (cases "map_of e j")
    case None
    then show ?thesis by (simp add: likelihood_lookup_plain [OF assms(1)])
  next
    case (Some v)
    then have "\<exists>j \<in> set js. map_of e j = None" using Cons.prems by auto
    then show ?thesis using Cons.IH by (simp add: likelihood_lookup_plain [OF assms(1)] Some)
  qed
qed


subsection \<open>predict leaves plain dictionaries alone\<close>





subsection \<open>The scores of all classes and the maximum\<close>

lemma update_absent: "k \<notin> fst ` set al \<Longrightarrow> AList.update k v al = al @ [(k, v)]"
  by (induction al) auto

lemma entries_plain: "map_of lik c = Some (Dict e) \<Longrightarrow> entries lik c = e"
  by (simp add: entries_def)

lemma class_score_stored:
  assumes "stored (likelihood m) x c"
  shows "log_prob_loop c x [0..<length x] lp (likelihood m) =
           (Inr (lp + (\<Sum>j \<in> present x. ln (likelihood_of m c j))), likelihood m)"
proof -
  from assms obtain e where e: "map_of (likelihood m) c = Some (Dict e)"
    and all: "\<forall>j \<in> set (positions x). map_of e j \<noteq> None"
    by (auto simp: stored_def set_positions)
  have "(\<Sum>j\<leftarrow>positions x. ln (case map_of e j of Some v \<Rightarrow> v | None \<Rightarrow> 0)) =
        (\<Sum>j \<in> set (positions x). ln (case map_of e j of Some v \<Rightarrow> v | None \<Rightarrow> 0))"
    by (rule sum_list_distinct_conv_sum_set) (simp add: positions_sorted)
  then show ?thesis
    by (simp add: class_score_positions log_prob_present_plain [OF e all] set_positions
        likelihood_of_def entries_plain [OF e])
qed

lemma class_score_missing:
  assumes "map_of lik c = Some (Dict e)" and "j \<in> present x" and "map_of e j = None"
  shows "log_prob_loop c x [0..<length x] lp lik = (Inl KeyError, lik)"
proof -
  have "\<exists>j \<in> set (positions x). map_of e j = None"
    using assms(2,3) by (auto simp: set_positions)
  then show ?thesis
    by (simp add: class_score_positions log_prob_present_missing [OF assms(1)])
qed

lemma predict_classes_scores:
  assumes "distinct (map fst ps)" and "fst ` set ps \<inter> fst ` set acc = {}"
    and "\<forall>q \<in> set ps. stored (likelihood m) x (fst q)"
  shows "predict_classes x ps acc (likelihood m) =
           (Inr (acc @ map (\<lambda>(c, p). (c, ln p + (\<Sum>j \<in> present x. ln (likelihood_of m c j)))) ps),
            likelihood m)"
  using assms
proof (induction ps arbitrary: acc)
  case Nil
  show ?case by simp
next
  case (Cons q ps)
  obtain c p where q: "q = (c, p)" by (cases q)
  have c: "stored (likelihood m) x c" and new: "c \<notin> fst ` set acc"
    using Cons.prems by (auto simp: q)
  define s where "s = ln p + (\<Sum>j \<in> present x. ln (likelihood_of m c j))"
  have "fst ` set ps \<inter> fst ` set (acc @ [(c, s)]) = {}"
    using Cons.prems by (auto simp: q)
  then have "predict_classes x ps (acc @ [(c, s)]) (likelihood m) =
      (Inr ((acc @ [(c, s)]) @ map (\<lambda>(c, p). (c, ln p + (\<Sum>j \<in> present x. ln (likelihood_of m c j)))) ps),
       likelihood m)"
    using Cons.prems by (intro Cons.IH) simp_all
  then show ?case
    by (simp add: q class_score_stored [OF c] update_absent [OF new] s_def)
qed

lemma max_from_first:
  "\<exists>pre l s post. b # rest = pre @ (l, s) # post \<and> max_from rest b = l \<and>
     (\<forall>q \<in> set pre. snd q < s) \<and> (\<forall>q \<in> set post. snd q \<le> s)"
proof (induction rest arbitrary: b)
  case Nil
  have "[b] = [] @ (fst b, snd b) # []" by simp
  then show ?case by fastforce
next
  case (Cons q rest)
  obtain c s where q: "q = (c, s)" by (cases q)
  show ?case
  proof (cases "snd b < s")
    case True
    from Cons.IH [of "(c, s)"] obtain pre l t post where
      d: "(c, s) # rest = pre @ (l, t) # post" and r: "max_from rest (c, s) = l"
      and lo: "\<forall>q \<in> set pre. snd q < t" and hi: "\<forall>q \<in> set post. snd q \<le> t"
      by blast
    have "s \<le> t" using d lo by (cases pre) auto
    then have "\<forall>q \<in> set (b # pre). snd q < t" using True lo by auto
    moreover have "b # q # rest = (b # pre) @ (l, t) # post" using d by (simp add: q)
    moreover have "max_from (q # rest) b = l" using True r by (simp add: q)
    ultimately show ?thesis using hi by blast
  next
    case False
    from Cons.IH [of b] obtain pre l t post where
      d: "b # rest = pre @ (l, t) # post" and r: "max_from rest b = l"
      and lo: "\<forall>q \<in> set pre. snd q < t" and hi: "\<forall>q \<in> set post. snd q \<le> t"
      by blast
    have m: "max_from (q # rest) b = l" using False r by (simp add: q)
    show ?thesis
    proof (cases pre)
      case Nil
      then have b: "b = (l, t)" and post: "post = rest" using d by simp_all
      have "b # q # rest = [] @ (l, t) # (q # rest)" by (simp add: b)
      moreover have "\<forall>q' \<in> set (q # rest). snd q' \<le> t" using hi post False b by (auto simp: q)
      ultimately show ?thesis using m by (metis empty_iff list.set(1))
    next
      case (Cons b' pre')
      then have b': "b' = b" and rest: "rest = pre' @ (l, t) # post" using d by simp_all
      have "snd b < t" using lo Cons b' by simp
      then have "\<forall>q' \<in> set (b # q # pre'). snd q' < t" using lo Cons False by (auto simp: q)
      moreover have "b # q # rest = (b # q # pre') @ (l, t) # post" by (simp add: rest)
      ultimately show ?thesis using m hi by blast
    qed
  qed
qed

lemma py_max_first:
  assumes "cs \<noteq> []"
  shows "\<exists>l. py_max (map (\<lambda>c. (c, f c)) cs) = Inr l \<and> first_argmax cs f l"
proof -
  from assms obtain c0 cs' where cs: "cs = c0 # cs'" by (cases cs) auto
  from max_from_first [of "(c0, f c0)" "map (\<lambda>c. (c, f c)) cs'"]
  obtain pre l s post where
    d: "map (\<lambda>c. (c, f c)) cs = pre @ (l, s) # post"
    and r: "max_from (map (\<lambda>c. (c, f c)) cs') (c0, f c0) = l"
    and lo: "\<forall>q \<in> set pre. snd q < s" and hi: "\<forall>q \<in> set post. snd q \<le> s"
    by (auto simp: cs)
  from d obtain pre' l' post' where
    cs': "cs = pre' @ l' # post'" and pre: "pre = map (\<lambda>c. (c, f c)) pre'"
    and l: "(l, s) = (l', f l')" and post: "post = map (\<lambda>c. (c, f c)) post'"
    by (auto simp: map_eq_append_conv map_eq_Cons_conv)
  have "first_argmax cs f l"
    unfolding first_argmax_def using cs' lo hi l by (auto simp: pre post)
  moreover have "py_max (map (\<lambda>c. (c, f c)) cs) = Inr l"
    using r by (simp add: py_max_def cs)
  ultimately show ?thesis by blast
qed

subsection \<open>predict on a newly trained object\<close>

lemma train_priors_append:
  "distinct cs \<Longrightarrow> set cs \<inter> fst ` set prior = {} \<Longrightarrow>
   train_priors Y cs prior = prior @ map (\<lambda>c. (c, np_mean_eq Y c)) cs"
proof (induction cs arbitrary: prior)
  case Nil
  show ?case by simp
next
  case (Cons c cs)
  have new: "c \<notin> fst ` set prior" using Cons.prems by auto
  have "set cs \<inter> fst ` set (prior @ [(c, np_mean_eq Y c)]) = {}"
    using Cons.prems by auto
  then show ?case
    using Cons.IH [of "prior @ [(c, np_mean_eq Y c)]"] Cons.prems(1)
    by (simp add: update_absent [OF new])
qed

lemma fresh_class_prior:
  "length Y = length (rows X) \<Longrightarrow>
   class_prior (snd (train NaiveBayes_init X Y)) = map (\<lambda>c. (c, np_mean_eq Y c)) (np_unique Y)"
  by (simp add: train_fields train_priors_append distinct_np_unique NaiveBayes_init_def)

lemma train_stored:
  assumes "length Y = length (rows X)" and "c \<in> set Y" and "present x \<subseteq> {..<ncols X}"
  shows "stored (likelihood (snd (train m X Y))) x c"
  unfolding stored_def
  using assms(2,3) by (auto simp: train_likelihood [OF assms(1)] map_of_scaled map_of_raw_counts)

lemma fresh_missing:
  assumes "length Y = length (rows X)" and "c \<in> set Y" and "\<not> j < ncols X"
  shows "\<exists>e. map_of (likelihood (snd (train NaiveBayes_init X Y))) c = Some (Dict e) \<and> map_of e j = None"
  using assms(2,3)
  by (simp add: train_likelihood [OF assms(1)] map_of_scaled map_of_raw_counts entries_def
      NaiveBayes_init_def)

lemma fresh_all_plain:
  "length Y = length (rows X) \<Longrightarrow> all_plain (snd (train NaiveBayes_init X Y))"
  by (simp add: train_all_plain all_plain_init train_succeeds)

lemma fresh_predict_row:
  fixes X :: ndarray and Y :: "int list"
  defines "m1 \<equiv> snd (train NaiveBayes_init X Y)"
  assumes len: "length Y = length (rows X)" and ne: "Y \<noteq> []" and inside: "present x \<subseteq> {..<ncols X}"
  shows "\<exists>l. predict_row m1 x = (Inr l, m1) \<and> first_argmax (classes m1) (\<lambda>c. presence_score m1 c x) l"
proof -
  have prior: "class_prior m1 = map (\<lambda>c. (c, np_mean_eq Y c)) (np_unique Y)"
    unfolding m1_def using len by (rule fresh_class_prior)
  have cls: "classes m1 = np_unique Y"
    by (simp add: m1_def train_fields [OF len])
  have pr: "prior_of m1 c = np_mean_eq Y c" if "c \<in> set Y" for c
    unfolding m1_def using len that by (rule train_prior_of)
  have "\<forall>q \<in> set (class_prior m1). stored (likelihood m1) x (fst q)"
    unfolding m1_def using train_stored [OF len _ inside]
    by (auto simp: fresh_class_prior [OF len] set_np_unique)
  moreover have "distinct (map fst (class_prior m1))"
    by (simp add: prior comp_def distinct_np_unique)
  ultimately have "predict_classes x (class_prior m1) [] (likelihood m1) =
      (Inr ([] @ map (\<lambda>(c, p). (c, ln p + (\<Sum>j \<in> present x. ln (likelihood_of m1 c j)))) (class_prior m1)),
       likelihood m1)"
    by (intro predict_classes_scores) simp_all
  moreover have "map (\<lambda>(c, p). (c, ln p + (\<Sum>j \<in> present x. ln (likelihood_of m1 c j)))) (class_prior m1) =
      map (\<lambda>c. (c, presence_score m1 c x)) (classes m1)"
    by (simp add: prior cls presence_score_def pr set_np_unique)
  ultimately have scores: "predict_classes x (class_prior m1) [] (likelihood m1) =
      (Inr (map (\<lambda>c. (c, presence_score m1 c x)) (classes m1)), likelihood m1)"
    by simp
  have "classes m1 \<noteq> []" using ne by (simp add: cls np_unique_Nil)
  from py_max_first [OF this, of "\<lambda>c. presence_score m1 c x"]
  obtain l where "py_max (map (\<lambda>c. (c, presence_score m1 c x)) (classes m1)) = Inr l"
    and "first_argmax (classes m1) (\<lambda>c. presence_score m1 c x) l"
    by blast
  then show ?thesis by (auto simp: predict_row_def scores)
qed

lemma fresh_predict_row_KeyError:
  fixes X :: ndarray and Y :: "int list"
  defines "m1 \<equiv> snd (train NaiveBayes_init X Y)"
  assumes len: "length Y = length (rows X)" and ne: "Y \<noteq> []" and outside: "\<not> present x \<subseteq> {..<ncols X}"
  shows "predict_row m1 x = (Inl KeyError, m1)"
proof -
  from outside obtain j where j: "j \<in> present x" "\<not> j < ncols X" by auto
  from ne obtain c cs where u: "np_unique Y = c # cs"
    by (cases "np_unique Y") (simp_all add: np_unique_Nil)
  then have c: "c \<in> set Y" using set_np_unique [of Y] by auto
  have prior: "class_prior m1 = (c, np_mean_eq Y c) # map (\<lambda>c. (c, np_mean_eq Y c)) cs"
    by (simp add: m1_def fresh_class_prior [OF len] u)
  from fresh_missing [OF len c j(2)] obtain e where
    e: "map_of (likelihood m1) c = Some (Dict e)" "map_of e j = None"
    by (auto simp: m1_def)
  show ?thesis
    by (simp add: predict_row_def prior class_score_missing [OF e(1) j(1) e(2)])
qed

lemma predict_rows_labels:
  assumes "\<forall>x \<in> set xs. \<exists>l. predict_row m x = (Inr l, m) \<and> P x l"
  shows "\<exists>ls. predict_rows m xs acc = (Inr (acc @ ls), m) \<and> list_all2 P xs ls"
  using assms
proof (induction xs arbitrary: acc)
  case Nil
  show ?case by simp
next
  case (Cons x xs)
  from Cons.prems obtain l where l: "predict_row m x = (Inr l, m)" "P x l" by auto
  from Cons.IH [of "acc @ [l]"] Cons.prems obtain ls where
    "predict_rows m xs (acc @ [l]) = (Inr ((acc @ [l]) @ ls), m)" "list_all2 P xs ls"
    by auto
  then have "predict_rows m (x # xs) acc = (Inr (acc @ (l # ls)), m) \<and> list_all2 P (x # xs) (l # ls)"
    using l by simp
  then show ?case by blast
qed

lemma predict_rows_error:
  assumes "\<forall>x \<in> set xs. (\<exists>l. predict_row m x = (Inr l, m)) \<or> predict_row m x = (Inl e, m)"
    and "\<exists>x \<in> set xs. predict_row m x = (Inl e, m)"
  shows "predict_rows m xs acc = (Inl e, m)"
  using assms
proof (induction xs arbitrary: acc)
  case Nil
  then show ?case by simp
next
  case (Cons x xs)
  show ?case
  proof (cases "predict_row m x = (Inl e, m)")
    case True
    then show ?thesis by simp
  next
    case False
    then obtain l where l: "predict_row m x = (Inr l, m)" using Cons.prems(1) by auto
    have "\<exists>x \<in> set xs. predict_row m x = (Inl e, m)" using Cons.prems(2) False by auto
    then show ?thesis using Cons.IH Cons.prems(1) by (simp add: l)
  qed
qed

lemma predict_no_classes:
  assumes "class_prior m = []"
  shows "predict m X = ((if rows X = [] then Inr [] else Inl ValueError), m)"
proof (cases "rows X")
  case Nil
  then show ?thesis by (simp add: predict_def)
next
  case (Cons x xs)
  then show ?thesis by (simp add: predict_def predict_row_def py_max_def assms)
qed

section \<open>The properties\<close>

text \<open>A comparison of two scores, for the retraining examples below.\<close>

lemma stale_beats_new: "ln (1 / 3) < ln (1 / 2) + ln (6 / 7 :: real)"
proof -
  have "ln (1 / 2) + ln (6 / 7 :: real) = ln ((1 / 2) * (6 / 7))"
    by (rule ln_mult_pos [symmetric]) simp_all
  also have "\<dots> = ln (3 / 7)" by simp
  finally show ?thesis by simp
qed

text \<open>
  C2. Training a new object on the rows \<open>[[2, 0], [0, 3]]\<close> with the labels \<open>[0, 1]\<close>
  completes and leaves the priors \<open>{0: 1/2, 1: 1/2}\<close>, the totals \<open>{0: 2, 1: 3}\<close>, the
  likelihoods \<open>{0: 3/4, 1: 1/4}\<close> for class 0 and \<open>{0: 1/5, 1: 4/5}\<close> for class 1;
  predicting on the single row \<open>[1, 0]\<close> then returns the label 0.
\<close>

theorem concrete_scenario:
  "train NaiveBayes_init \<lparr>ncols = 2, rows = [[2, 0], [0, 3]]\<rparr> [0, 1] =
     (Inr (),
      \<lparr>class_prior = [(0, 1 / 2), (1, 1 / 2)],
       likelihood = [(0, Dict [(0, 3 / 4), (1, 1 / 4)]), (1, Dict [(0, 1 / 5), (1, 4 / 5)])],
       classes = [0, 1],
       class_word_counts = [(0, 2), (1, 3)],
       vocab_size = 2\<rparr>) \<and>
   fst (predict (snd (train NaiveBayes_init \<lparr>ncols = 2, rows = [[2, 0], [0, 3]]\<rparr> [0, 1]))
          \<lparr>ncols = 2, rows = [[1, 0]]\<rparr>) = Inr [0]"
proof -
  have t: "train NaiveBayes_init \<lparr>ncols = 2, rows = [[2, 0], [0, 3]]\<rparr> [0, 1] =
     (Inr (),
      \<lparr>class_prior = [(0, 1 / 2), (1, 1 / 2)],
       likelihood = [(0, Dict [(0, 3 / 4), (1, 1 / 4)]), (1, Dict [(0, 1 / 5), (1, 4 / 5)])],
       classes = [0, 1],
       class_word_counts = [(0, 2), (1, 3)],
       vocab_size = 2\<rparr>)"
    by (simp add: train_def train_class_def normalise_def likelihood_getitem_def np_unique_def
        np_mean_eq_def bool_index_def class_slice_def np_sum_def np_sum_column_def wrap64_def int64_add_def
        NaiveBayes_init_def upt_conv_Cons)
  show ?thesis
    unfolding t
    by (simp add: predict_def predict_row_def py_max_def likelihood_lookup_def
        likelihood_getitem_def)
qed

text \<open>
  C3, as the claim states it, fails: the row \<open>[2 ^ 62, 2 ^ 62]\<close> with the label 0 is valid
  input, the 64-bit total of the class wraps around to \<open>- 2 ^ 63\<close>, and the likelihood stored
  for class 0 and word index 0 is negative.
\<close>

theorem trained_distributions_counterexample:
  "valid_input \<lparr>ncols = 2, rows = [[4611686018427387904, 4611686018427387904]]\<rparr> [0] \<and>
   fst (train NaiveBayes_init \<lparr>ncols = 2, rows = [[4611686018427387904, 4611686018427387904]]\<rparr> [0])
     = Inr () \<and>
   classes (snd (train NaiveBayes_init
      \<lparr>ncols = 2, rows = [[4611686018427387904, 4611686018427387904]]\<rparr> [0])) = [0] \<and>
   vocab_size (snd (train NaiveBayes_init
      \<lparr>ncols = 2, rows = [[4611686018427387904, 4611686018427387904]]\<rparr> [0])) = 2 \<and>
   likelihood_of (snd (train NaiveBayes_init
      \<lparr>ncols = 2, rows = [[4611686018427387904, 4611686018427387904]]\<rparr> [0])) 0 0 < 0"
proof -
  have len: "length [0 :: int] =
      length (rows \<lparr>ncols = 2, rows = [[4611686018427387904, 4611686018427387904]]\<rparr>)"
    by simp
  have "valid_input \<lparr>ncols = 2, rows = [[4611686018427387904, 4611686018427387904]]\<rparr> [0]"
    by (simp add: valid_input_def rectangular_def)
  moreover have "likelihood_of (snd (train NaiveBayes_init
      \<lparr>ncols = 2, rows = [[4611686018427387904, 4611686018427387904]]\<rparr> [0])) 0 0 < 0"
    by (simp add: train_likelihood_of [OF len] class_slice_def np_sum_def np_sum_column_def
        wrap64_def int64_add_def)
  ultimately show ?thesis
    by (simp add: train_succeeds [OF len] train_fields [OF len] np_unique_def)
qed

text \<open>
  C3, amended. After training on valid input for which the wrap-around does not occur (for
  every label, the entries of its rows plus \<open>V\<close> stay below \<open>2 ^ 63\<close>), from any earlier state
  of the object: the class set holds the distinct labels, the vocabulary size is the
  number of columns, the priors of the labels lie in \<open>(0, 1]\<close> and sum to 1, and for every
  label the likelihoods at the \<open>V\<close> word indices lie in \<open>(0, 1]\<close> and sum to 1.
\<close>

theorem trained_distributions:
  fixes m :: NaiveBayes and X :: ndarray and Y :: "int list"
  defines "m1 \<equiv> snd (train m X Y)"
  assumes valid: "valid_input X Y" and fits: "within_int64 X Y"
  shows "fst (train m X Y) = Inr () \<and>
    set (classes m1) = set Y \<and> distinct (classes m1) \<and> vocab_size m1 = ncols X \<and>
    (\<forall>c \<in> set Y. 0 < prior_of m1 c \<and> prior_of m1 c \<le> 1) \<and>
    (\<Sum>c \<in> set Y. prior_of m1 c) = 1 \<and>
    (\<forall>c \<in> set Y.
       (\<forall>j < ncols X. 0 < likelihood_of m1 c j \<and> likelihood_of m1 c j \<le> 1) \<and>
       (\<Sum>j < ncols X. likelihood_of m1 c j) = 1)"
proof -
  have len: "length Y = length (rows X)" and ne: "Y \<noteq> []"
    using valid by (auto simp: valid_input_def)
  have cls: "set (classes m1) = set Y" "distinct (classes m1)" and V: "vocab_size m1 = ncols X"
    by (simp_all add: m1_def train_fields [OF len] set_np_unique distinct_np_unique)
  have prior: "prior_of m1 c = np_mean_eq Y c" if "c \<in> set Y" for c
    unfolding m1_def using len that by (rule train_prior_of)
  have ok: "fst (train m X Y) = Inr ()" using len by (rule train_succeeds)
  have p1: "\<forall>c \<in> set Y. 0 < prior_of m1 c \<and> prior_of m1 c \<le> 1"
    by (simp add: prior np_mean_eq_pos prior_le_1)
  have p2: "(\<Sum>c \<in> set Y. prior_of m1 c) = 1"
    by (simp add: prior sum_priors [OF ne])
  have l: "(\<forall>j < ncols X. 0 < likelihood_of m1 c j \<and> likelihood_of m1 c j \<le> 1) \<and>
       (\<Sum>j < ncols X. likelihood_of m1 c j) = 1" if c: "c \<in> set Y" for c
  proof -
    have b: "class_term_total X Y c + int (ncols X) < 2 ^ 63"
      using fits c by (simp add: within_int64_def list_all_iff)
    have "0 < likelihood_of m1 c j \<and> likelihood_of m1 c j \<le> 1" if "j < ncols X" for j
      unfolding m1_def using in_unit_interval [OF valid c that b] .
    moreover have "(\<Sum>j < ncols X. likelihood_of m1 c j) = 1"
      unfolding m1_def using valid c b by (rule likelihood_sum)
    ultimately show ?thesis by blast
  qed
  show ?thesis using ok cls V p1 p2 l by blast
qed

text \<open>An instance of C3 as amended: the two-row training set of the concrete scenario.\<close>

theorem trained_distributions_witness:
  "valid_input \<lparr>ncols = 2, rows = [[2, 0], [0, 3]]\<rparr> [0, 1] \<and>
   within_int64 \<lparr>ncols = 2, rows = [[2, 0], [0, 3]]\<rparr> [0, 1] \<and>
   (\<Sum>j < ncols \<lparr>ncols = 2, rows = [[2, 0], [0, 3]]\<rparr>.
      likelihood_of (snd (train NaiveBayes_init \<lparr>ncols = 2, rows = [[2, 0], [0, 3]]\<rparr> [0, 1])) 1 j) = 1"
proof -
  have h: "valid_input \<lparr>ncols = 2, rows = [[2, 0], [0, 3]]\<rparr> [0, 1]"
    by (simp add: valid_input_def rectangular_def)
  have len: "length [0, 1 :: int] = length (rows \<lparr>ncols = 2, rows = [[2, 0], [0, 3]]\<rparr>)"
    by simp
  have f: "within_int64 \<lparr>ncols = 2, rows = [[2, 0], [0, 3]]\<rparr> [0, 1]"
    by (simp add: within_int64_def exact_sum_class_term_total [OF len, symmetric] class_slice_def)
  have "1 \<in> set [0, 1 :: int]" by simp
  with trained_distributions [OF h f, of NaiveBayes_init] h f show ?thesis by blast
qed

text \<open>
  C4, as the claim states it, fails: on the row \<open>[2 ^ 62, 2 ^ 62]\<close> with the label 0, which is
  valid input, the entries of the rows labelled 0 add up to \<open>2 ^ 63\<close> and the total stored
  for class 0 is \<open>- 2 ^ 63\<close>.
\<close>

theorem laplace_smoothing_counterexample:
  "valid_input \<lparr>ncols = 2, rows = [[4611686018427387904, 4611686018427387904]]\<rparr> [0] \<and>
   class_term_total \<lparr>ncols = 2, rows = [[4611686018427387904, 4611686018427387904]]\<rparr> [0] 0
     = 9223372036854775808 \<and>
   total_of (snd (train NaiveBayes_init
      \<lparr>ncols = 2, rows = [[4611686018427387904, 4611686018427387904]]\<rparr> [0])) 0
     = - 9223372036854775808"
proof -
  have len: "length [0 :: int] =
      length (rows \<lparr>ncols = 2, rows = [[4611686018427387904, 4611686018427387904]]\<rparr>)"
    by simp
  have "valid_input \<lparr>ncols = 2, rows = [[4611686018427387904, 4611686018427387904]]\<rparr> [0]"
    by (simp add: valid_input_def rectangular_def)
  moreover have "class_term_total
      \<lparr>ncols = 2, rows = [[4611686018427387904, 4611686018427387904]]\<rparr> [0] 0 = 9223372036854775808"
    by (simp add: exact_sum_class_term_total [OF len, symmetric] class_slice_def)
  moreover have "total_of (snd (train NaiveBayes_init
      \<lparr>ncols = 2, rows = [[4611686018427387904, 4611686018427387904]]\<rparr> [0])) 0
     = - 9223372036854775808"
    by (simp add: train_total_of [OF len] class_slice_def np_sum_def wrap64_def)
  ultimately show ?thesis by simp
qed

text \<open>
  C4, amended. After training on valid input, from any earlier state of the object, for
  every label \<open>c\<close> whose rows have entries that stay, with \<open>V\<close> added, below \<open>2 ^ 63\<close>, and every
  word index \<open>j < V\<close>: \<open>c\<close> is in the class set, the vocabulary size is the number of columns,
  the stored total of \<open>c\<close> is the sum of all entries of the rows labelled \<open>c\<close>, the stored
  likelihood is \<open>(r(c, j) + 1) / (total + V)\<close> with \<open>r(c, j)\<close> the sum of entry \<open>j\<close> over those
  rows, it is not 0, and it is \<open>1 / (total + V)\<close> when \<open>r(c, j) = 0\<close>.
\<close>

theorem laplace_smoothing:
  fixes m :: NaiveBayes and X :: ndarray and Y :: "int list"
  defines "m1 \<equiv> snd (train m X Y)"
  assumes valid: "valid_input X Y" and c: "c \<in> set Y" and j: "j < ncols X"
    and fits: "class_term_total X Y c + int (ncols X) < 2 ^ 63"
  shows "c \<in> set (classes m1) \<and> vocab_size m1 = ncols X \<and>
         total_of m1 c = class_term_total X Y c \<and>
         likelihood_of m1 c j =
           (real_of_int (raw_count X Y c j) + 1) / (real_of_int (total_of m1 c) + real (vocab_size m1)) \<and>
         likelihood_of m1 c j \<noteq> 0 \<and>
         (raw_count X Y c j = 0 \<longrightarrow>
            likelihood_of m1 c j = 1 / (real_of_int (total_of m1 c) + real (vocab_size m1)))"
proof -
  have len: "length Y = length (rows X)" using valid by (simp add: valid_input_def)
  have V: "vocab_size m1 = ncols X" and cls: "c \<in> set (classes m1)"
    using c by (simp_all add: m1_def train_fields [OF len] set_np_unique)
  have total: "total_of m1 c = class_term_total X Y c"
    unfolding m1_def using valid c fits by (rule train_exact_total)
  have "likelihood_of m1 c j =
      (real_of_int (raw_count X Y c j) + 1) / (real_of_int (class_term_total X Y c) + real (ncols X))"
    unfolding m1_def using valid c j fits by (rule train_exact_likelihood)
  then have lik: "likelihood_of m1 c j =
      (real_of_int (raw_count X Y c j) + 1) / (real_of_int (total_of m1 c) + real (vocab_size m1))"
    by (simp only: total V)
  have pos: "likelihood_of m1 c j \<noteq> 0"
    using in_unit_interval [OF valid c j fits, of m] by (simp add: m1_def)
  show ?thesis using cls V total lik pos by simp
qed

text \<open>An instance of C4 as amended: class 0 and word index 1 of the concrete scenario.\<close>

theorem laplace_smoothing_witness:
  "valid_input \<lparr>ncols = 2, rows = [[2, 0], [0, 3]]\<rparr> [0, 1] \<and>
   0 \<in> set [0, 1 :: int] \<and>
   1 < ncols \<lparr>ncols = 2, rows = [[2, 0], [0, 3]]\<rparr> \<and>
   class_term_total \<lparr>ncols = 2, rows = [[2, 0], [0, 3]]\<rparr> [0, 1] 0 +
     int (ncols \<lparr>ncols = 2, rows = [[2, 0], [0, 3]]\<rparr>) < 2 ^ 63 \<and>
   total_of (snd (train NaiveBayes_init \<lparr>ncols = 2, rows = [[2, 0], [0, 3]]\<rparr> [0, 1])) 0 =
     class_term_total \<lparr>ncols = 2, rows = [[2, 0], [0, 3]]\<rparr> [0, 1] 0 \<and>
   likelihood_of (snd (train NaiveBayes_init \<lparr>ncols = 2, rows = [[2, 0], [0, 3]]\<rparr> [0, 1])) 0 1 \<noteq> 0"
proof -
  have h: "valid_input \<lparr>ncols = 2, rows = [[2, 0], [0, 3]]\<rparr> [0, 1]"
    by (simp add: valid_input_def rectangular_def)
  have len: "length [0, 1 :: int] = length (rows \<lparr>ncols = 2, rows = [[2, 0], [0, 3]]\<rparr>)"
    by simp
  have c: "0 \<in> set [0, 1 :: int]" by simp
  have j: "1 < ncols \<lparr>ncols = 2, rows = [[2, 0], [0, 3]]\<rparr>" by simp
  have f: "class_term_total \<lparr>ncols = 2, rows = [[2, 0], [0, 3]]\<rparr> [0, 1] 0 +
     int (ncols \<lparr>ncols = 2, rows = [[2, 0], [0, 3]]\<rparr>) < 2 ^ 63"
    by (simp add: exact_sum_class_term_total [OF len, symmetric] class_slice_def)
  from laplace_smoothing [OF h c j f] h c j f show ?thesis by blast
qed



text \<open>
  C5. Training a new object on the row \<open>[[1]]\<close> with the label \<open>[5]\<close> and then on the rows
  \<open>[[1], [1]]\<close> with the labels \<open>[3, 5]\<close> leaves the class set \<open>[3, 5]\<close> and the keys of
  \<^verbatim>\<open>self.class_prior\<close> in the order \<open>5, 3\<close>. On the row \<open>[1]\<close> the two classes have the same
  prior and the same likelihood, so the same score, and \<^verbatim>\<open>predict\<close> returns 5, the first key
  of \<^verbatim>\<open>self.class_prior\<close>, where the first class of the class set is 3, which a new object
  trained on the second input alone returns. Training a new object on \<open>[[1, 0], [0, 5]]\<close>
  with the labels \<open>[7, 9]\<close> and then on \<open>[[1, 0]]\<close> with the label \<open>[7]\<close> leaves the class set
  \<open>[7]\<close>, and on the row \<open>[0, 1]\<close> \<^verbatim>\<open>predict\<close> returns 9, which is not in the class set.
\<close>

theorem predict_iterates_stale_priors:
  "classes (snd (train (snd (train NaiveBayes_init \<lparr>ncols = 1, rows = [[1]]\<rparr> [5]))
                   \<lparr>ncols = 1, rows = [[1], [1]]\<rparr> [3, 5])) = [3, 5] \<and>
   map fst (class_prior (snd (train (snd (train NaiveBayes_init \<lparr>ncols = 1, rows = [[1]]\<rparr> [5]))
                   \<lparr>ncols = 1, rows = [[1], [1]]\<rparr> [3, 5]))) = [5, 3] \<and>
   fst (predict (snd (train (snd (train NaiveBayes_init \<lparr>ncols = 1, rows = [[1]]\<rparr> [5]))
                   \<lparr>ncols = 1, rows = [[1], [1]]\<rparr> [3, 5]))
          \<lparr>ncols = 1, rows = [[1]]\<rparr>) = Inr [5] \<and>
   fst (predict (snd (train NaiveBayes_init \<lparr>ncols = 1, rows = [[1], [1]]\<rparr> [3, 5]))
          \<lparr>ncols = 1, rows = [[1]]\<rparr>) = Inr [3] \<and>
   classes (snd (train (snd (train NaiveBayes_init \<lparr>ncols = 2, rows = [[1, 0], [0, 5]]\<rparr> [7, 9]))
                   \<lparr>ncols = 2, rows = [[1, 0]]\<rparr> [7])) = [7] \<and>
   fst (predict (snd (train (snd (train NaiveBayes_init \<lparr>ncols = 2, rows = [[1, 0], [0, 5]]\<rparr> [7, 9]))
                   \<lparr>ncols = 2, rows = [[1, 0]]\<rparr> [7]))
          \<lparr>ncols = 2, rows = [[0, 1]]\<rparr>) = Inr [9]"
proof -
  have a1: "train NaiveBayes_init \<lparr>ncols = 1, rows = [[1]]\<rparr> [5] =
     (Inr (),
      \<lparr>class_prior = [(5, 1)],
       likelihood = [(5, Dict [(0, 1)])],
       classes = [5],
       class_word_counts = [(5, 1)],
       vocab_size = 1\<rparr>)"
    by (simp add: train_def train_class_def normalise_def likelihood_getitem_def np_unique_def
        np_mean_eq_def bool_index_def class_slice_def np_sum_def np_sum_column_def wrap64_def
        int64_add_def NaiveBayes_init_def upt_conv_Cons)
  have a2: "train \<lparr>class_prior = [(5, 1)],
       likelihood = [(5, Dict [(0, 1)])],
       classes = [5],
       class_word_counts = [(5, 1)],
       vocab_size = 1\<rparr> \<lparr>ncols = 1, rows = [[1], [1]]\<rparr> [3, 5] =
     (Inr (),
      \<lparr>class_prior = [(5, 1 / 2), (3, 1 / 2)],
       likelihood = [(5, Dict [(0, 1)]), (3, Dict [(0, 1)])],
       classes = [3, 5],
       class_word_counts = [(5, 1), (3, 1)],
       vocab_size = 1\<rparr>)"
    by (simp add: train_def train_class_def normalise_def likelihood_getitem_def np_unique_def
        np_mean_eq_def bool_index_def class_slice_def np_sum_def np_sum_column_def wrap64_def
        int64_add_def upt_conv_Cons)
  have a3: "train NaiveBayes_init \<lparr>ncols = 1, rows = [[1], [1]]\<rparr> [3, 5] =
     (Inr (),
      \<lparr>class_prior = [(3, 1 / 2), (5, 1 / 2)],
       likelihood = [(3, Dict [(0, 1)]), (5, Dict [(0, 1)])],
       classes = [3, 5],
       class_word_counts = [(3, 1), (5, 1)],
       vocab_size = 1\<rparr>)"
    by (simp add: train_def train_class_def normalise_def likelihood_getitem_def np_unique_def
        np_mean_eq_def bool_index_def class_slice_def np_sum_def np_sum_column_def wrap64_def
        int64_add_def NaiveBayes_init_def upt_conv_Cons)
  have b1: "train NaiveBayes_init \<lparr>ncols = 2, rows = [[1, 0], [0, 5]]\<rparr> [7, 9] =
     (Inr (),
      \<lparr>class_prior = [(7, 1 / 2), (9, 1 / 2)],
       likelihood = [(7, Dict [(0, 2 / 3), (1, 1 / 3)]), (9, Dict [(0, 1 / 7), (1, 6 / 7)])],
       classes = [7, 9],
       class_word_counts = [(7, 1), (9, 5)],
       vocab_size = 2\<rparr>)"
    by (simp add: train_def train_class_def normalise_def likelihood_getitem_def np_unique_def
        np_mean_eq_def bool_index_def class_slice_def np_sum_def np_sum_column_def wrap64_def
        int64_add_def NaiveBayes_init_def upt_conv_Cons)
  have b2: "train \<lparr>class_prior = [(7, 1 / 2), (9, 1 / 2)],
       likelihood = [(7, Dict [(0, 2 / 3), (1, 1 / 3)]), (9, Dict [(0, 1 / 7), (1, 6 / 7)])],
       classes = [7, 9],
       class_word_counts = [(7, 1), (9, 5)],
       vocab_size = 2\<rparr> \<lparr>ncols = 2, rows = [[1, 0]]\<rparr> [7] =
     (Inr (),
      \<lparr>class_prior = [(7, 1), (9, 1 / 2)],
       likelihood = [(7, Dict [(0, 2 / 3), (1, 1 / 3)]), (9, Dict [(0, 1 / 7), (1, 6 / 7)])],
       classes = [7],
       class_word_counts = [(7, 1), (9, 5)],
       vocab_size = 2\<rparr>)"
    by (simp add: train_def train_class_def normalise_def likelihood_getitem_def np_unique_def
        np_mean_eq_def bool_index_def class_slice_def np_sum_def np_sum_column_def wrap64_def
        int64_add_def upt_conv_Cons)
  show ?thesis
    unfolding a1 b1 snd_conv a2 a3 b2
    using stale_beats_new
    by (simp add: predict_def predict_row_def py_max_def likelihood_lookup_def
        likelihood_getitem_def)
qed



text \<open>
  C6. Training a new object on the rows \<open>[[1, 0], [0, 5]]\<close> with the labels \<open>[0, 1]\<close> and
  then on the row \<open>[[1, 0]]\<close> with the label \<open>[0]\<close> leaves the prior of class 1 in
  \<^verbatim>\<open>self.class_prior\<close>, where a new object trained on the second input alone has class 0 only;
  on the row \<open>[0, 1]\<close> the first object predicts the label 1, which the second training
  set does not contain, and the second object predicts 0.
\<close>

theorem retrain_keeps_stale_classes:
  "class_prior (snd (train (snd (train NaiveBayes_init \<lparr>ncols = 2, rows = [[1, 0], [0, 5]]\<rparr> [0, 1]))
                      \<lparr>ncols = 2, rows = [[1, 0]]\<rparr> [0])) = [(0, 1), (1, 1 / 2)] \<and>
   class_prior (snd (train NaiveBayes_init \<lparr>ncols = 2, rows = [[1, 0]]\<rparr> [0])) = [(0, 1)] \<and>
   fst (predict (snd (train (snd (train NaiveBayes_init \<lparr>ncols = 2, rows = [[1, 0], [0, 5]]\<rparr> [0, 1]))
                       \<lparr>ncols = 2, rows = [[1, 0]]\<rparr> [0]))
          \<lparr>ncols = 2, rows = [[0, 1]]\<rparr>) = Inr [1] \<and>
   fst (predict (snd (train NaiveBayes_init \<lparr>ncols = 2, rows = [[1, 0]]\<rparr> [0]))
          \<lparr>ncols = 2, rows = [[0, 1]]\<rparr>) = Inr [0]"
proof -
  have t1: "train NaiveBayes_init \<lparr>ncols = 2, rows = [[1, 0], [0, 5]]\<rparr> [0, 1] =
     (Inr (),
      \<lparr>class_prior = [(0, 1 / 2), (1, 1 / 2)],
       likelihood = [(0, Dict [(0, 2 / 3), (1, 1 / 3)]), (1, Dict [(0, 1 / 7), (1, 6 / 7)])],
       classes = [0, 1],
       class_word_counts = [(0, 1), (1, 5)],
       vocab_size = 2\<rparr>)"
    by (simp add: train_def train_class_def normalise_def likelihood_getitem_def np_unique_def
        np_mean_eq_def bool_index_def class_slice_def np_sum_def np_sum_column_def wrap64_def int64_add_def
        NaiveBayes_init_def upt_conv_Cons)
  have t2: "train \<lparr>class_prior = [(0, 1 / 2), (1, 1 / 2)],
       likelihood = [(0, Dict [(0, 2 / 3), (1, 1 / 3)]), (1, Dict [(0, 1 / 7), (1, 6 / 7)])],
       classes = [0, 1],
       class_word_counts = [(0, 1), (1, 5)],
       vocab_size = 2\<rparr> \<lparr>ncols = 2, rows = [[1, 0]]\<rparr> [0] =
     (Inr (),
      \<lparr>class_prior = [(0, 1), (1, 1 / 2)],
       likelihood = [(0, Dict [(0, 2 / 3), (1, 1 / 3)]), (1, Dict [(0, 1 / 7), (1, 6 / 7)])],
       classes = [0],
       class_word_counts = [(0, 1), (1, 5)],
       vocab_size = 2\<rparr>)"
    by (simp add: train_def train_class_def normalise_def likelihood_getitem_def np_unique_def
        np_mean_eq_def bool_index_def class_slice_def np_sum_def np_sum_column_def wrap64_def int64_add_def
        upt_conv_Cons)
  have t3: "train NaiveBayes_init \<lparr>ncols = 2, rows = [[1, 0]]\<rparr> [0] =
     (Inr (),
      \<lparr>class_prior = [(0, 1)],
       likelihood = [(0, Dict [(0, 2 / 3), (1, 1 / 3)])],
       classes = [0],
       class_word_counts = [(0, 1)],
       vocab_size = 2\<rparr>)"
    by (simp add: train_def train_class_def normalise_def likelihood_getitem_def np_unique_def
        np_mean_eq_def bool_index_def class_slice_def np_sum_def np_sum_column_def wrap64_def int64_add_def
        NaiveBayes_init_def upt_conv_Cons)
  show ?thesis
    unfolding t1 snd_conv t2 t3
    using stale_beats_new
    by (simp add: predict_def predict_row_def py_max_def likelihood_lookup_def
        likelihood_getitem_def)
qed

text \<open>
  C7, as the claim states it, fails: \<^verbatim>\<open>train\<close> completes on a matrix with no column,
  raises numpy's IndexError on two rows with one label, and \<^verbatim>\<open>predict\<close> returns a label for
  a row of length 1 on a model trained with \<open>V = 2\<close>.
\<close>

theorem shape_validation_counterexample:
  "fst (train NaiveBayes_init \<lparr>ncols = 0, rows = [[]]\<rparr> [0]) = Inr () \<and>
   fst (train NaiveBayes_init \<lparr>ncols = 1, rows = [[1], [1]]\<rparr> [0]) = Inl IndexError \<and>
   fst (predict (snd (train NaiveBayes_init \<lparr>ncols = 2, rows = [[2, 0], [0, 3]]\<rparr> [0, 1]))
          \<lparr>ncols = 1, rows = [[1]]\<rparr>) = Inr [0]"
proof -
  have t: "train NaiveBayes_init \<lparr>ncols = 2, rows = [[2, 0], [0, 3]]\<rparr> [0, 1] =
     (Inr (),
      \<lparr>class_prior = [(0, 1 / 2), (1, 1 / 2)],
       likelihood = [(0, Dict [(0, 3 / 4), (1, 1 / 4)]), (1, Dict [(0, 1 / 5), (1, 4 / 5)])],
       classes = [0, 1],
       class_word_counts = [(0, 2), (1, 3)],
       vocab_size = 2\<rparr>)"
    by (simp add: train_def train_class_def normalise_def likelihood_getitem_def np_unique_def
        np_mean_eq_def bool_index_def class_slice_def np_sum_def np_sum_column_def wrap64_def int64_add_def
        NaiveBayes_init_def upt_conv_Cons)
  have "fst (train NaiveBayes_init \<lparr>ncols = 0, rows = [[]]\<rparr> [0]) = Inr ()"
    by (simp add: train_outcome)
  moreover have "fst (train NaiveBayes_init \<lparr>ncols = 1, rows = [[1], [1]]\<rparr> [0]) = Inl IndexError"
    by (simp add: train_outcome)
  moreover have "fst (predict (snd (train NaiveBayes_init \<lparr>ncols = 2, rows = [[2, 0], [0, 3]]\<rparr> [0, 1]))
          \<lparr>ncols = 1, rows = [[1]]\<rparr>) = Inr [0]"
    unfolding t
    by (simp add: predict_def predict_row_def py_max_def likelihood_lookup_def
        likelihood_getitem_def)
  ultimately show ?thesis by simp
qed

text \<open>
  C7, amended. \<^verbatim>\<open>train\<close> checks no shape: on any object it raises IndexError when the
  labels are not empty and differ in number from the rows, and completes in every other
  case, \<open>V = 0\<close> included. \<^verbatim>\<open>predict\<close> on a new object trained with as many labels as rows,
  at least one, checks no row length: it raises KeyError when some row is positive at an
  index \<open>\<ge> V\<close>, and otherwise returns one label for every row; either way the object is
  unchanged.
\<close>

theorem no_shape_validation:
  fixes X :: ndarray and Y :: "int list"
  defines "m1 \<equiv> snd (train NaiveBayes_init X Y)"
  shows "fst (train m X Y) = (if length Y = length (rows X) \<or> Y = [] then Inr () else Inl IndexError) \<and>
         (length Y = length (rows X) \<and> Y \<noteq> [] \<longrightarrow>
            (if \<forall>x \<in> set (rows X1). present x \<subseteq> {..<ncols X}
             then \<exists>labels. predict m1 X1 = (Inr labels, m1) \<and> length labels = length (rows X1)
             else predict m1 X1 = (Inl KeyError, m1)))"
proof -
  have "if \<forall>x \<in> set (rows X1). present x \<subseteq> {..<ncols X}
        then \<exists>labels. predict m1 X1 = (Inr labels, m1) \<and> length labels = length (rows X1)
        else predict m1 X1 = (Inl KeyError, m1)"
    if len: "length Y = length (rows X)" and ne: "Y \<noteq> []"
  proof (cases "\<forall>x \<in> set (rows X1). present x \<subseteq> {..<ncols X}")
    case True
    then have "\<forall>x \<in> set (rows X1). \<exists>l. predict_row m1 x = (Inr l, m1) \<and> True"
      unfolding m1_def using fresh_predict_row [OF len ne] by blast
    then have "\<exists>ls. predict_rows m1 (rows X1) [] = (Inr ([] @ ls), m1) \<and>
        list_all2 (\<lambda>x l. True) (rows X1) ls"
      by (rule predict_rows_labels)
    then show ?thesis using True by (auto simp: predict_def dest: list_all2_lengthD)
  next
    case False
    have "(\<exists>l. predict_row m1 x = (Inr l, m1)) \<or> predict_row m1 x = (Inl KeyError, m1)" for x
      unfolding m1_def
      using fresh_predict_row [OF len ne, of x] fresh_predict_row_KeyError [OF len ne, of x]
      by blast
    moreover have "\<exists>x \<in> set (rows X1). predict_row m1 x = (Inl KeyError, m1)"
      unfolding m1_def using False fresh_predict_row_KeyError [OF len ne] by blast
    ultimately have "predict_rows m1 (rows X1) [] = (Inl KeyError, m1)"
      by (intro predict_rows_error) blast+
    then show ?thesis using False by (simp add: predict_def)
  qed
  then show ?thesis by (simp add: train_outcome)
qed

text \<open>An instance of C7 as amended: a row of length 3, positive at index 2, with \<open>V = 2\<close>.\<close>

theorem no_shape_validation_witness:
  "length [0, 1 :: int] = length (rows \<lparr>ncols = 2, rows = [[2, 0], [0, 3]]\<rparr>) \<and>
   [0, 1 :: int] \<noteq> [] \<and>
   2 \<in> present [0, 0, 1] \<and>
   fst (predict (snd (train NaiveBayes_init \<lparr>ncols = 2, rows = [[2, 0], [0, 3]]\<rparr> [0, 1]))
          \<lparr>ncols = 3, rows = [[0, 0, 1]]\<rparr>) = Inl KeyError"
proof -
  have a: "length [0, 1 :: int] = length (rows \<lparr>ncols = 2, rows = [[2, 0], [0, 3]]\<rparr>) \<and>
      [0, 1 :: int] \<noteq> []"
    by simp
  have p: "2 \<in> present [0, 0, 1]" by (simp add: present_def)
  then have b: "\<not> (\<forall>x \<in> set (rows \<lparr>ncols = 3, rows = [[0, 0, 1]]\<rparr>).
      present x \<subseteq> {..<ncols \<lparr>ncols = 2, rows = [[2, 0], [0, 3]]\<rparr>})"
    by auto
  from no_shape_validation [of NaiveBayes_init "\<lparr>ncols = 2, rows = [[2, 0], [0, 3]]\<rparr>" "[0, 1]"
      "\<lparr>ncols = 3, rows = [[0, 0, 1]]\<rparr>"] a b
  have "predict (snd (train NaiveBayes_init \<lparr>ncols = 2, rows = [[2, 0], [0, 3]]\<rparr> [0, 1]))
          \<lparr>ncols = 3, rows = [[0, 0, 1]]\<rparr> =
        (Inl KeyError, snd (train NaiveBayes_init \<lparr>ncols = 2, rows = [[2, 0], [0, 3]]\<rparr> [0, 1]))"
    by presburger
  then show ?thesis using a p by simp
qed

text \<open>
  C8, as the claim states it, fails: on a new object \<^verbatim>\<open>predict\<close> returns the empty sequence
  for an input with no row, and raises ValueError for an input with one row.
\<close>

theorem predict_untrained_counterexample:
  "fst (predict NaiveBayes_init \<lparr>ncols = 1, rows = []\<rparr>) = Inr [] \<and>
   fst (predict NaiveBayes_init \<lparr>ncols = 1, rows = [[1]]\<rparr>) = Inl ValueError \<and>
   fst (predict NaiveBayes_init \<lparr>ncols = 1, rows = [[1]]\<rparr>) \<noteq> Inl UntrainedModelError"
  by (simp add: predict_def predict_row_def py_max_def NaiveBayes_init_def)

text \<open>
  C8, amended. On an object on which \<^verbatim>\<open>train\<close> was never called, \<^verbatim>\<open>predict\<close> raises ValueError
  (the maximum of an empty dictionary) for every input with at least one row, returns the
  empty sequence for an input with no row, and leaves the object unchanged.
\<close>

theorem predict_untrained:
  "predict NaiveBayes_init X =
     ((if rows X = [] then Inr [] else Inl ValueError), NaiveBayes_init)"
  by (rule predict_no_classes) (simp add: NaiveBayes_init_def)

text \<open>An instance of C8 as amended: an input of two rows.\<close>

theorem predict_untrained_witness:
  "fst (predict NaiveBayes_init \<lparr>ncols = 2, rows = [[0, 1], [1, 1]]\<rparr>) = Inl ValueError"
  by (simp add: predict_untrained)

text \<open>
  C10. \<^verbatim>\<open>train\<close> on a new object with a matrix of no row and no label completes and leaves
  the class set, the priors and the likelihoods empty; \<^verbatim>\<open>predict\<close> on that object raises
  ValueError for every input with at least one row.
\<close>

theorem train_no_rows:
  fixes V :: nat
  defines "m1 \<equiv> snd (train NaiveBayes_init \<lparr>ncols = V, rows = []\<rparr> [])"
  shows "fst (train NaiveBayes_init \<lparr>ncols = V, rows = []\<rparr> []) = Inr () \<and>
         classes m1 = [] \<and> class_prior m1 = [] \<and> likelihood m1 = [] \<and>
         (rows X1 \<noteq> [] \<longrightarrow> fst (predict m1 X1) = Inl ValueError)"
proof -
  have p: "class_prior m1 = []"
    by (simp add: m1_def train_no_labels NaiveBayes_init_def)
  have "rows X1 \<noteq> [] \<longrightarrow> fst (predict m1 X1) = Inl ValueError"
    by (simp add: predict_no_classes [OF p])
  then show ?thesis
    using p by (simp add: m1_def train_no_labels NaiveBayes_init_def)
qed

text \<open>An instance of C10: three columns, and an input of one row.\<close>

theorem train_no_rows_witness:
  "rows \<lparr>ncols = 3, rows = [[1, 0, 0]]\<rparr> \<noteq> [] \<and>
   fst (predict (snd (train NaiveBayes_init \<lparr>ncols = 3, rows = []\<rparr> []))
          \<lparr>ncols = 3, rows = [[1, 0, 0]]\<rparr>) = Inl ValueError"
proof -
  have h: "rows \<lparr>ncols = 3, rows = [[1, 0, 0]]\<rparr> \<noteq> []" by simp
  from train_no_rows [of 3 "\<lparr>ncols = 3, rows = [[1, 0, 0]]\<rparr>"] h show ?thesis by blast
qed

end
